theory Spec2Isabelle
  imports Main
begin

section \<open>Data model of crawlers.ts\<close>

text \<open>
  The file \<^verbatim>\<open>src/crawlers.ts\<close> keeps one process-wide map from serialized crawler
  options to running crawlers, admits requests into the queue of the matching crawler,
  and installs the hooks and failure handlers of every crawler it creates.
  Mutation is modelled by explicit state passing over a record of the shared state;
  every \<^verbatim>\<open>throw\<close> is a value of the sum type, \<open>Inl\<close> carrying the error.
\<close>

text \<open>
  Modelled from the spec: \<^verbatim>\<open>Label\<close> lives in const.ts, which is not among the sources;
  section 3 names the two variants, browser-rendered and direct fetch. The source only
  compares against \<^verbatim>\<open>Label.BROWSER\<close>. The types of types.ts (\<^verbatim>\<open>TimeMeasure\<close>, \<^verbatim>\<open>UserData\<close>,
  \<^verbatim>\<open>VerboseResult\<close>, \<^verbatim>\<open>CrawlerOptions\<close>) are given the fields that crawlers.ts reads and
  writes.
\<close>

datatype label = BROWSER | DIRECT

text \<open>\<^verbatim>\<open>TimeMeasure\<close>: an event name and the value of \<^verbatim>\<open>Date.now()\<close> in milliseconds.\<close>

record time_measure =
  event :: string
  time :: nat

record request_error =
  attempt :: nat
  errorMessage :: string

type_synonym headers = "(string \<times> string) list"

record xhr_record =
  xhr_url :: string
  xhr_statusCode :: int
  xhr_method :: string
  xhr_requestHeaders :: headers
  xhr_headers :: headers
  xhr_body :: string

record request_details =
  requestErrors :: "request_error list"
  responseHeaders :: "headers option"
  xhr :: "xhr_record list"

text \<open>
  \<^verbatim>\<open>UserData\<close>, with the fields that crawlers.ts destructures. An optional field of the
  TypeScript type is an \<open>option\<close>; \<open>None\<close> is \<^verbatim>\<open>undefined\<close>.
\<close>

record user_data =
  requestDetails :: request_details
  jsonResponse :: bool
  inputtedUrl :: string
  parsedInputtedParams :: "(string \<times> string) list"
  timeMeasures :: "time_measure list"
  transparentStatusCode :: bool
  nonbrowserRequestStatus :: "int option"
  blockResources :: bool
  width :: nat
  height :: nat
  blockResourcePatterns :: "string list option"

text \<open>
  A request. \<^verbatim>\<open>addRequest\<close> receives \<^verbatim>\<open>RequestOptions<UserData>\<close>, whose \<^verbatim>\<open>userData\<close> is
  optional (\<open>'u = user_data option\<close>); the handlers cast \<^verbatim>\<open>request.userData as UserData\<close>
  (\<open>'u = user_data\<close>).
\<close>

record 'u request =
  uniqueKey :: string
  url :: string
  label :: label
  skipNavigation :: bool
  retryCount :: nat
  userData :: 'u

record crawler_options =
  proxyConfigurationOptions :: "(string \<times> string) list"

definition DEFAULT_CRAWLER_OPTIONS :: crawler_options where
  "DEFAULT_CRAWLER_OPTIONS = \<lparr>proxyConfigurationOptions = []\<rparr>"

text \<open>
  A crawler as \<^verbatim>\<open>new PlaywrightCrawler({...})\<close> configures it, with the request queue it
  owns. The queue keeps every request added to it, in order.
\<close>

record crawler =
  keepAlive :: bool
  proxyConfiguration :: "(string \<times> string) list"
  maxRequestRetries :: nat
  maxConcurrency :: nat
  useSessionPool :: bool
  requestHandlerTimeoutSecs :: nat
  maxErrorScore :: nat
  requestQueue :: "user_data option request list"
  running :: bool

datatype error =
    DuplicateKeyError string
  | QueueOpenError string
  | ProxyConfigurationError string

text \<open>
  What the caller is sent: \<^verbatim>\<open>JSON.stringify\<close> of the plain error response or of the
  verbose envelope. The constructors stand for the serialized strings.
\<close>

datatype error_response = ErrorResponse string

record verbose_result =
  body :: error_response
  cookies :: "string list"
  evaluateResults :: "string list"
  jsScenarioReport :: "(string \<times> string) list"
  headers :: headers
  vtype :: string
  iframes :: "string list"
  xhr_results :: "xhr_record list"
  initialStatusCode :: "int option"
  resolvedUrl :: string
  screenshot :: "string option"

datatype response_body =
    StringifiedError error_response
  | StringifiedVerbose verbose_result
  | HandlerPayload string

datatype log_result = LoggedError error_response | LoggedVerbose verbose_result

record log_data =
  log_measures :: "time_measure list"
  log_inputtedUrl :: string
  log_parsedInputtedParams :: "(string \<times> string) list"
  log_result :: log_result
  log_errors :: "request_error list"
  log_failed :: bool

text \<open>
  The calls that touch shared state, in the order they are made. The list is not part
  of the program; it records the order of the program's effects.
\<close>

datatype effect =
    LookupCrawler string
  | CreateCrawler string nat
  | AddResponse string nat
  | PushTimeMeasure string string
  | QueueAddRequest nat string
  | PushLogData string
  | SendResponse string
  | SendIgnored string

text \<open>
  The shared state: the module-level \<^verbatim>\<open>crawlers\<close> map (a crawler is named by its index
  in \<open>pool\<close>, the list of all crawlers ever constructed and started), the response
  registry of responses.ts, what was written to the response channels, the diagnostics
  sink, the global \<^verbatim>\<open>latestRequestTaskTimeMeasure\<close>, and the number of clock readings so
  far.
\<close>

record world =
  crawlers :: "string \<rightharpoonup> nat"
  pool :: "crawler list"
  responses :: "string \<rightharpoonup> nat"
  sent :: "(nat \<times> int \<times> response_body) list"
  logData :: "log_data list"
  latestRequestTaskTimeMeasure :: "time_measure option"
  tick :: nat
  effects :: "effect list"

text \<open>
  What the process reads from outside: \<^verbatim>\<open>JSON.stringify\<close> on crawler options, whether
  \<^verbatim>\<open>RequestQueue.open\<close> and \<^verbatim>\<open>Actor.createProxyConfiguration\<close> reject, and the wall clock:
  \<open>clock env n\<close> is what the \<open>n\<close>-th call of \<^verbatim>\<open>Date.now()\<close> returns.
\<close>

record env =
  JSON_stringify :: "crawler_options \<Rightarrow> string"
  RequestQueue_open :: "string option"
  createProxyConfiguration :: "(string \<times> string) list \<Rightarrow> string + (string \<times> string) list"
  clock :: "nat \<Rightarrow> nat"

definition Date_now :: "env \<Rightarrow> world \<Rightarrow> nat \<times> world" where
  "Date_now env w = (clock env (tick w), w\<lparr>tick := Suc (tick w)\<rparr>)"

definition emit :: "effect \<Rightarrow> world \<Rightarrow> world" where
  "emit e w = w\<lparr>effects := effects w @ [e]\<rparr>"

definition initial_world :: world where
  "initial_world = \<lparr>crawlers = Map.empty, pool = [], responses = Map.empty, sent = [],
     logData = [], latestRequestTaskTimeMeasure = None, tick = 0, effects = []\<rparr>"

section \<open>The response registry (responses.ts)\<close>

text \<open>
  Modelled from the spec: responses.ts (\<^verbatim>\<open>addResponse\<close>, \<^verbatim>\<open>sendErrorResponseById\<close>) is
  not among the sources. Section 4.2: register inserts and fails with a duplicate-key
  error if the key is already present; dispatch looks up and removes the entry, writes
  status and payload to the channel and closes it; if the entry is absent it logs and
  does nothing else.
\<close>

definition addResponse :: "string \<Rightarrow> nat \<Rightarrow> world \<Rightarrow> error + world" where
  "addResponse key res w =
     (case responses w key of
        Some _ \<Rightarrow> Inl (DuplicateKeyError key)
      | None \<Rightarrow> Inr (emit (AddResponse key res) (w\<lparr>responses := (responses w)(key \<mapsto> res)\<rparr>)))"

definition dispatch :: "string \<Rightarrow> response_body \<Rightarrow> int \<Rightarrow> world \<Rightarrow> world" where
  "dispatch key payload statusCode w =
     (case responses w key of
        None \<Rightarrow> emit (SendIgnored key) w
      | Some res \<Rightarrow>
          emit (SendResponse key)
            (w\<lparr>responses := (responses w)(key := None),
               sent := sent w @ [(res, statusCode, payload)]\<rparr>))"

definition sendErrorResponseById :: "string \<Rightarrow> response_body \<Rightarrow> int \<Rightarrow> world \<Rightarrow> world" where
  "sendErrorResponseById key payload statusCode w = dispatch key payload statusCode w"

section \<open>Creating crawlers and admitting requests\<close>

text \<open>
  \<^verbatim>\<open>requestQueue.addRequest\<close> of the crawling library: a request whose unique key the
  queue has already seen is not added again.
\<close>

definition queue_addRequest ::
  "user_data option request \<Rightarrow> user_data option request list \<Rightarrow> user_data option request list" where
  "queue_addRequest r q = (if uniqueKey r \<in> set (map uniqueKey q) then q else q @ [r])"

text \<open>The object built by \<^verbatim>\<open>new PlaywrightCrawler({...})\<close> at lines 25 to 164.\<close>

definition new_crawler :: "(string \<times> string) list \<Rightarrow> crawler" where
  "new_crawler proxyConfig =
     \<lparr>keepAlive = True, proxyConfiguration = proxyConfig, maxRequestRetries = 1,
      maxConcurrency = 1, useSessionPool = True, requestHandlerTimeoutSecs = 3600,
      maxErrorScore = 1, requestQueue = [], running = False\<rparr>"

text \<open>
  \<^verbatim>\<open>createAndStartCrawler\<close> up to its last \<^verbatim>\<open>await\<close>: the queue is opened, the proxy
  configuration is created and the crawler object is constructed. Nothing shared is
  written yet; the crawler is a local value of the call.
\<close>

definition construct_crawler :: "env \<Rightarrow> crawler_options \<Rightarrow> error + crawler" where
  "construct_crawler env crawlerOptions =
     (case RequestQueue_open env of
        Some msg \<Rightarrow> Inl (QueueOpenError msg)
      | None \<Rightarrow>
          (case createProxyConfiguration env (proxyConfigurationOptions crawlerOptions) of
             Inl msg \<Rightarrow> Inl (ProxyConfigurationError msg)
           | Inr proxyConfig \<Rightarrow> Inr (new_crawler proxyConfig)))"

text \<open>
  The rest of \<^verbatim>\<open>createAndStartCrawler\<close>, lines 192 to 197, which runs without
  suspension: \<^verbatim>\<open>crawler.run()\<close>, \<^verbatim>\<open>crawlers.set(JSON.stringify(crawlerOptions), crawler)\<close>,
  \<^verbatim>\<open>return crawler\<close>.
\<close>

definition start_crawler :: "env \<Rightarrow> crawler_options \<Rightarrow> crawler \<Rightarrow> world \<Rightarrow> nat \<times> world" where
  "start_crawler env crawlerOptions c w =
     (let i = length (pool w);
          key = JSON_stringify env crawlerOptions
      in (i, emit (CreateCrawler key i)
               (w\<lparr>pool := pool w @ [c\<lparr>running := True\<rparr>],
                  crawlers := (crawlers w)(key \<mapsto> i)\<rparr>)))"

definition createAndStartCrawler :: "env \<Rightarrow> crawler_options \<Rightarrow> world \<Rightarrow> (error + nat) \<times> world" where
  "createAndStartCrawler env crawlerOptions w =
     (case construct_crawler env crawlerOptions of
        Inl e \<Rightarrow> (Inl e, w)
      | Inr c \<Rightarrow> (case start_crawler env crawlerOptions c w of (i, w') \<Rightarrow> (Inr i, w')))"

text \<open>
  Lines 205 to 211 of \<^verbatim>\<open>addRequest\<close>, once the crawler is known: register the response,
  push the \<^verbatim>\<open>before queue add\<close> measure if the request has user data
  (\<^verbatim>\<open>request.userData?.timeMeasures.push\<close>), add the request to the crawler's queue.
\<close>

definition push_before_queue_add :: "nat \<Rightarrow> user_data option request \<Rightarrow> user_data option request" where
  "push_before_queue_add now request =
     (case userData request of
        None \<Rightarrow> request
      | Some ud \<Rightarrow>
          request\<lparr>userData :=
            Some (ud\<lparr>timeMeasures := timeMeasures ud @ [\<lparr>event = ''before queue add'', time = now\<rparr>]\<rparr>)\<rparr>)"

definition enqueue :: "nat \<Rightarrow> user_data option request \<Rightarrow> world \<Rightarrow> world" where
  "enqueue i request w =
     emit (QueueAddRequest i (uniqueKey request))
       (w\<lparr>pool := (pool w)[i := (pool w ! i)\<lparr>requestQueue := queue_addRequest request (requestQueue (pool w ! i))\<rparr>]\<rparr>)"

definition register_and_enqueue ::
  "env \<Rightarrow> user_data option request \<Rightarrow> nat \<Rightarrow> nat \<Rightarrow> world \<Rightarrow> (error + unit) \<times> world" where
  "register_and_enqueue env request res i w =
     (case addResponse (uniqueKey request) res w of
        Inl e \<Rightarrow> (Inl e, w)
      | Inr w1 \<Rightarrow>
          (case userData request of
             None \<Rightarrow> (Inr (), enqueue i request w1)
           | Some _ \<Rightarrow>
               (case Date_now env w1 of
                  (now, w2) \<Rightarrow>
                    (Inr (), enqueue i (push_before_queue_add now request)
                               (emit (PushTimeMeasure (uniqueKey request) ''before queue add'') w2)))))"

text \<open>\<^verbatim>\<open>addRequest\<close>, lines 200 to 212, run from call to return.\<close>

definition addRequest ::
  "env \<Rightarrow> user_data option request \<Rightarrow> nat \<Rightarrow> crawler_options \<Rightarrow> world \<Rightarrow> (error + unit) \<times> world" where
  "addRequest env request res crawlerOptions w =
     (let key = JSON_stringify env crawlerOptions;
          w0 = emit (LookupCrawler key) w
      in case crawlers w0 key of
           Some i \<Rightarrow> register_and_enqueue env request res i w0
         | None \<Rightarrow>
             (case createAndStartCrawler env crawlerOptions w0 of
                (Inl e, w1) \<Rightarrow> (Inl e, w1)
              | (Inr i, w1) \<Rightarrow> register_and_enqueue env request res i w1))"

section \<open>Concurrent calls of addRequest\<close>

text \<open>
  \<^verbatim>\<open>addRequest\<close> is an async function: a call runs until it suspends at an \<^verbatim>\<open>await\<close>, and
  other calls run in between. A call that finds its crawler in the map does not
  suspend before the request is handed to the queue. A call that does not find it
  suspends inside \<^verbatim>\<open>createAndStartCrawler\<close> (at \<^verbatim>\<open>RequestQueue.open\<close>, at
  \<^verbatim>\<open>Actor.createProxyConfiguration\<close> and at \<^verbatim>\<open>stats.stopCapturing\<close>); the crawler is put
  into the map only when the call resumes after the last of them, and the caller's
  \<^verbatim>\<open>await\<close> resumes after that.
\<close>

datatype task =
    Called "user_data option request" nat crawler_options
  | AwaitingCrawler "user_data option request" nat crawler_options
  | Resolved "user_data option request" nat nat
  | Returned "error + unit"

definition addRequest_step :: "env \<Rightarrow> task \<Rightarrow> world \<Rightarrow> task \<times> world" where
  "addRequest_step env t w =
     (case t of
        Called request res crawlerOptions \<Rightarrow>
          (let key = JSON_stringify env crawlerOptions;
               w0 = emit (LookupCrawler key) w
           in case crawlers w0 key of
                Some i \<Rightarrow> (case register_and_enqueue env request res i w0 of (r, w1) \<Rightarrow> (Returned r, w1))
              | None \<Rightarrow> (AwaitingCrawler request res crawlerOptions, w0))
      | AwaitingCrawler request res crawlerOptions \<Rightarrow>
          (case createAndStartCrawler env crawlerOptions w of
             (Inl e, w1) \<Rightarrow> (Returned (Inl e), w1)
           | (Inr i, w1) \<Rightarrow> (Resolved request res i, w1))
      | Resolved request res i \<Rightarrow>
          (case register_and_enqueue env request res i w of (r, w1) \<Rightarrow> (Returned r, w1))
      | Returned r \<Rightarrow> (Returned r, w))"

text \<open>
  A schedule names, step by step, the call that runs next; a number that names no call
  is skipped.
\<close>

fun run_schedule :: "env \<Rightarrow> nat list \<Rightarrow> task list \<times> world \<Rightarrow> task list \<times> world" where
  "run_schedule env [] s = s"
| "run_schedule env (n # ns) (ts, w) =
     (if n < length ts
      then (case addRequest_step env (ts ! n) w of (t', w') \<Rightarrow> run_schedule env ns (ts[n := t'], w'))
      else run_schedule env ns (ts, w))"




section \<open>The handlers installed on every crawler\<close>

text \<open>
  The crawling context the failure handler receives: \<^verbatim>\<open>response?.status()\<close> (\<open>None\<close>
  when there is no response) and \<^verbatim>\<open>page.context().cookies(url)\<close>.
\<close>

record crawling_context =
  response_status :: "int option"
  page_cookies :: "string \<Rightarrow> string list option"

text \<open>\<^verbatim>\<open>errorHandler\<close>, lines 57 to 69; \<open>now\<close> is the value of \<^verbatim>\<open>Date.now()\<close>.\<close>

definition errorHandler :: "nat \<Rightarrow> user_data request \<Rightarrow> string \<Rightarrow> user_data request" where
  "errorHandler now request err_message =
     (let ud = userData request;
          rd = requestDetails ud
      in request\<lparr>userData := ud
           \<lparr>timeMeasures := timeMeasures ud @ [\<lparr>event = ''error'', time = now\<rparr>],
            requestDetails := rd\<lparr>requestErrors := requestErrors rd @
              [\<lparr>attempt = retryCount request + 1, errorMessage = err_message\<rparr>]\<rparr>\<rparr>\<rparr>)"

text \<open>
  Modelled from the spec: \<^verbatim>\<open>pushLogData\<close> lives in utils.ts, which is not among the
  sources. Section 6: it records the timing ledger and the data it is given in the
  diagnostics sink and never fails the crawl.
\<close>

definition pushLogData ::
  "time_measure list \<Rightarrow> string \<Rightarrow> (string \<times> string) list \<Rightarrow> log_result \<Rightarrow> request_error list \<Rightarrow>
   bool \<Rightarrow> world \<Rightarrow> world" where
  "pushLogData tms inputted params result errors failed w =
     emit (PushLogData inputted)
       (w\<lparr>logData := logData w @
          [\<lparr>log_measures = tms, log_inputtedUrl = inputted, log_parsedInputtedParams = params,
            log_result = result, log_errors = errors, log_failed = failed\<rparr>]\<rparr>)"

text \<open>
  Line 90: \<^verbatim>\<open>request.skipNavigation ? nonbrowserRequestStatus! : (response?.status() || null)\<close>.
  The operator \<^verbatim>\<open>||\<close> turns \<^verbatim>\<open>undefined\<close> and \<^verbatim>\<open>0\<close> into \<^verbatim>\<open>null\<close>.
\<close>

definition or_null :: "int option \<Rightarrow> int option" where
  "or_null s = (case s of None \<Rightarrow> None | Some n \<Rightarrow> (if n = 0 then None else Some n))"

definition responseStatusCode :: "crawling_context \<Rightarrow> user_data request \<Rightarrow> int option" where
  "responseStatusCode ctx request =
     (if skipNavigation request then nonbrowserRequestStatus (userData request)
      else or_null (response_status ctx))"

text \<open>
  Lines 91 to 94. \<^verbatim>\<open>transparentStatusCode && responseStatusCode\<close> is truthy when the flag
  is set and the status is a number other than \<^verbatim>\<open>0\<close>.
\<close>

definition statusCode :: "crawling_context \<Rightarrow> user_data request \<Rightarrow> int" where
  "statusCode ctx request =
     (case responseStatusCode ctx request of
        None \<Rightarrow> 500
      | Some n \<Rightarrow> (if transparentStatusCode (userData request) \<and> n \<noteq> 0 then n else 500))"

text \<open>\<^verbatim>\<open>failedRequestHandler\<close>, lines 70 to 115.\<close>

definition failedRequestHandler ::
  "crawling_context \<Rightarrow> user_data request \<Rightarrow> string \<Rightarrow> world \<Rightarrow> user_data request \<times> world" where
  "failedRequestHandler ctx request err_message w =
     (let ud = userData request;
          rd = (requestDetails ud)\<lparr>requestErrors := requestErrors (requestDetails ud) @
                 [\<lparr>attempt = retryCount request + 1, errorMessage = err_message\<rparr>]\<rparr>;
          request' = request\<lparr>userData := ud\<lparr>requestDetails := rd\<rparr>\<rparr>;
          errorResponse = ErrorResponse err_message
      in if jsonResponse ud then
           (let verboseResponse =
                  \<lparr>body = errorResponse,
                   cookies = (case page_cookies ctx (url request) of None \<Rightarrow> [] | Some cs \<Rightarrow> cs),
                   evaluateResults = [],
                   jsScenarioReport = [],
                   headers = (case responseHeaders rd of None \<Rightarrow> [] | Some h \<Rightarrow> h),
                   vtype = ''json'',
                   iframes = [],
                   xhr_results = [],
                   initialStatusCode = responseStatusCode ctx request,
                   resolvedUrl = [],
                   screenshot = None\<rparr>;
                w1 = pushLogData (timeMeasures ud) (inputtedUrl ud) (parsedInputtedParams ud)
                       (LoggedVerbose verboseResponse) (requestErrors rd) True w
            in (request', sendErrorResponseById (uniqueKey request) (StringifiedVerbose verboseResponse)
                            (statusCode ctx request) w1))
         else
           (let w1 = pushLogData (timeMeasures ud) (inputtedUrl ud) (parsedInputtedParams ud)
                       (LoggedError errorResponse) (requestErrors rd) True w
            in (request', sendErrorResponseById (uniqueKey request) (StringifiedError errorResponse)
                            (statusCode ctx request) w1)))"

text \<open>
  The page as the pre-navigation hooks leave it: the console listener of the first
  hook, the viewport, the extra patterns given to \<^verbatim>\<open>blockRequests\<close> (\<open>None\<close> when it is
  not called) and whether the XHR listener is installed.
\<close>

record page_setup =
  consoleListener :: bool
  viewport :: "(nat \<times> nat) option"
  blockedPatterns :: "string list option"
  xhrListener :: bool

definition blank_page :: page_setup where
  "blank_page = \<lparr>consoleListener = False, viewport = None, blockedPatterns = None, xhrListener = False\<rparr>"

text \<open>\<^verbatim>\<open>preNavigationHooks\<close>, lines 116 to 162, both hooks in order.\<close>

definition preNavigationHooks ::
  "nat \<Rightarrow> user_data request \<Rightarrow> page_setup \<Rightarrow> user_data request \<times> page_setup" where
  "preNavigationHooks now request page =
     (let page1 = page\<lparr>consoleListener := True\<rparr>;
          ud = userData request;
          request' = request\<lparr>userData := ud\<lparr>timeMeasures := timeMeasures ud @
                       [\<lparr>event = ''pre-navigation hook'', time = now\<rparr>]\<rparr>\<rparr>;
          page2 = page1\<lparr>viewport := Some (width ud, height ud)\<rparr>;
          page3 = (if label request = BROWSER \<and> blockResources ud
                   then page2\<lparr>blockedPatterns :=
                          Some (case blockResourcePatterns ud of None \<Rightarrow> [] | Some ps \<Rightarrow> ps)\<rparr>
                   else page2);
          page4 = (if label request = BROWSER \<and> jsonResponse ud
                   then page3\<lparr>xhrListener := True\<rparr> else page3)
      in (request', page4))"

text \<open>The override of \<^verbatim>\<open>runTaskFunction\<close>, lines 170 to 178, before it calls the original.\<close>

definition runTaskFunction :: "env \<Rightarrow> world \<Rightarrow> world" where
  "runTaskFunction env w =
     (case Date_now env w of
        (now, w1) \<Rightarrow>
          w1\<lparr>latestRequestTaskTimeMeasure := Some \<lparr>event = ''crawlee internal run task'', time = now\<rparr>\<rparr>)"

text \<open>The override of \<^verbatim>\<open>_runRequestHandler\<close>, lines 183 to 189, before it calls the original.\<close>

definition runRequestHandler :: "env \<Rightarrow> user_data request \<Rightarrow> world \<Rightarrow> user_data request \<times> world" where
  "runRequestHandler env request w =
     (case Date_now env w of
        (now, w1) \<Rightarrow>
          (request\<lparr>userData := (userData request)\<lparr>timeMeasures := timeMeasures (userData request) @
             [\<lparr>event = ''crawlee internal request handler'', time = now\<rparr>]\<rparr>\<rparr>, w1))"

section \<open>The life of a request inside a crawler\<close>

text \<open>
  Modelled from the spec: the loop that pulls a request from the queue, runs the
  hooks, the navigation and the request handler, and retries, belongs to the crawling
  library; the request handler (\<^verbatim>\<open>router\<close>) lives in router.ts. Neither is among the
  sources. Section 4.3: a handler that completes has delivered the result through the
  dispatcher; any stage may throw; after a throw the request is queued again if
  \<open>retryCount < maxRequestRetries\<close> and has failed otherwise. The library calls
  \<^verbatim>\<open>errorHandler\<close> before each retry and \<^verbatim>\<open>failedRequestHandler\<close> once the retries are
  exhausted. Section 4.2 allows a success to be delivered before a late error.

  What one attempt does is given from outside: it completes and sends a payload with a
  status, or it throws, before or after the pre-navigation hooks ran and possibly after
  the handler had already sent its response.
\<close>

record thrown =
  reachedHooks :: bool
  sentBefore :: "(response_body \<times> int) option"
  message :: string
  failure_ctx :: crawling_context

datatype attempt_outcome = Completes response_body int | Throws thrown

datatype job_state = Queued | Succeeded | Failed

definition run_hooks :: "env \<Rightarrow> user_data request \<Rightarrow> world \<Rightarrow> user_data request \<times> world" where
  "run_hooks env request w =
     (case Date_now env w of (now, w1) \<Rightarrow> (fst (preNavigationHooks now request blank_page), w1))"

definition attempt_step ::
  "env \<Rightarrow> crawler \<Rightarrow> attempt_outcome \<Rightarrow> user_data request \<Rightarrow> world \<Rightarrow>
   job_state \<times> user_data request \<times> world" where
  "attempt_step env c outcome request w =
     (case runRequestHandler env request (runTaskFunction env w) of
        (r1, w1) \<Rightarrow>
          (case outcome of
             Completes payload status \<Rightarrow>
               (case run_hooks env r1 w1 of
                  (r2, w2) \<Rightarrow> (Succeeded, r2, dispatch (uniqueKey r2) payload status w2))
           | Throws t \<Rightarrow>
               (case (if reachedHooks t then run_hooks env r1 w1 else (r1, w1)) of
                  (r2, w2) \<Rightarrow>
                    (let w3 = (case sentBefore t of
                                 None \<Rightarrow> w2
                               | Some (payload, status) \<Rightarrow> dispatch (uniqueKey r2) payload status w2)
                     in if retryCount r2 < maxRequestRetries c then
                          (case Date_now env w3 of
                             (now, w4) \<Rightarrow>
                               (let r3 = errorHandler now r2 (message t)
                                in (Queued, r3\<lparr>retryCount := retryCount r3 + 1\<rparr>, w4)))
                        else
                          (case failedRequestHandler (failure_ctx t) r2 (message t) w3 of
                             (r3, w4) \<Rightarrow> (Failed, r3, w4))))))"

function crawl ::
  "env \<Rightarrow> crawler \<Rightarrow> (nat \<Rightarrow> attempt_outcome) \<Rightarrow> user_data request \<Rightarrow> world \<Rightarrow>
   job_state \<times> user_data request \<times> world" where
  "crawl env c outcomes request w =
     (case attempt_step env c (outcomes (retryCount request)) request w of
        (Queued, r', w') \<Rightarrow> crawl env c outcomes r' w'
      | (Succeeded, r', w') \<Rightarrow> (Succeeded, r', w')
      | (Failed, r', w') \<Rightarrow> (Failed, r', w'))"
  by pat_completeness auto
termination
  by (relation "measure (\<lambda>(env, c, outcomes, request, w). maxRequestRetries c - retryCount request)")
     (auto simp: attempt_step_def runRequestHandler_def run_hooks_def preNavigationHooks_def
        errorHandler_def failedRequestHandler_def Date_now_def Let_def
        split: prod.splits attempt_outcome.splits if_splits job_state.splits option.splits)

declare crawl.simps [simp del]

text \<open>\<^verbatim>\<open>request.userData as UserData\<close>: the queued request as the handlers see it.\<close>

definition as_UserData :: "user_data option request \<Rightarrow> user_data request option" where
  "as_UserData r =
     (case userData r of
        None \<Rightarrow> None
      | Some ud \<Rightarrow> Some \<lparr>uniqueKey = uniqueKey r, url = url r, label = label r,
                         skipNavigation = skipNavigation r, retryCount = retryCount r, userData = ud\<rparr>)"

text \<open>
  Every crawler named by the \<^verbatim>\<open>crawlers\<close> map exists: the map only ever receives the
  index of a crawler that was just appended.
\<close>

definition wf_world :: "world \<Rightarrow> bool" where
  "wf_world w = (\<forall>i \<in> ran (crawlers w). i < length (pool w))"

text \<open>All requests held by the queues of all crawlers.\<close>

definition queued :: "world \<Rightarrow> user_data option request list" where
  "queued w = concat (map requestQueue (pool w))"



text \<open>\<open>untouched k w w'\<close>: from \<open>w\<close> to \<open>w'\<close> nothing was sent and the registry entry of \<open>k\<close> is as it was.\<close>

definition untouched :: "string \<Rightarrow> world \<Rightarrow> world \<Rightarrow> bool" where
  "untouched k w w' = (sent w' = sent w \<and> responses w' k = responses w k)"


text \<open>The error log and the timing ledger of a request.\<close>

definition errors_of :: "user_data request \<Rightarrow> request_error list" where
  "errors_of r = requestErrors (requestDetails (userData r))"

definition ledger_of :: "user_data request \<Rightarrow> time_measure list" where
  "ledger_of r = timeMeasures (userData r)"

text \<open>The number of attempts a ledger records: one measure per run of the request handler.\<close>

definition attempts_in :: "time_measure list \<Rightarrow> nat" where
  "attempts_in ms = length (filter (\<lambda>m. event m = ''crawlee internal request handler'') ms)"

text \<open>The measure the pre-navigation hook pushes in an attempt that starts in \<open>w\<close>, if it is reached.\<close>

definition hook_measures :: "env \<Rightarrow> world \<Rightarrow> bool \<Rightarrow> time_measure list" where
  "hook_measures env w reached =
     (if reached then [\<lparr>event = ''pre-navigation hook'', time = clock env (tick w + 2)\<rparr>] else [])"

text \<open>
  A ledger is in order at clock reading \<open>n\<close>: its timestamps do not decrease and none
  is later than the \<open>n\<close>-th reading of the clock.
\<close>

definition ledger_ok :: "env \<Rightarrow> nat \<Rightarrow> time_measure list \<Rightarrow> bool" where
  "ledger_ok env n ms = (sorted (map time ms) \<and> (\<forall>m \<in> set ms. time m \<le> clock env n))"

section \<open>Concrete inputs\<close>

definition example_user_data :: user_data where
  "example_user_data =
     \<lparr>requestDetails = \<lparr>requestErrors = [], responseHeaders = None, xhr = []\<rparr>,
      jsonResponse = True, inputtedUrl = ''https://x'', parsedInputtedParams = [],
      timeMeasures = [\<lparr>event = ''request received'', time = 900\<rparr>],
      transparentStatusCode = False, nonbrowserRequestStatus = None,
      blockResources = False, width = 1920, height = 1080, blockResourcePatterns = None\<rparr>"

definition example_request :: "string \<Rightarrow> user_data option request" where
  "example_request k =
     \<lparr>uniqueKey = k, url = ''https://x'', label = BROWSER, skipNavigation = False,
      retryCount = 0, userData = Some example_user_data\<rparr>"

definition example_env :: env where
  "example_env =
     \<lparr>JSON_stringify = (\<lambda>co. concat (map (\<lambda>(k, v). k @ '':'' @ v @ '';'') (proxyConfigurationOptions co))),
      RequestQueue_open = None,
      createProxyConfiguration = (\<lambda>p. Inr p),
      clock = (\<lambda>n. 1000 + n)\<rparr>"

definition failing_env :: env where
  "failing_env = example_env\<lparr>createProxyConfiguration := (\<lambda>p. Inl ''no proxy'')\<rparr>"


definition example_job :: "string \<Rightarrow> user_data request" where
  "example_job k =
     \<lparr>uniqueKey = k, url = ''https://x'', label = BROWSER, skipNavigation = False,
      retryCount = 0, userData = example_user_data\<rparr>"

definition transparent_job :: "string \<Rightarrow> user_data request" where
  "transparent_job k = (example_job k)\<lparr>userData := example_user_data\<lparr>transparentStatusCode := True\<rparr>\<rparr>"

definition example_ctx :: crawling_context where
  "example_ctx = \<lparr>response_status = Some 404, page_cookies = (\<lambda>u. Some [''sid=1''])\<rparr>"

definition admitted_world :: world where
  "admitted_world = snd (addRequest example_env (example_request ''a'') 0 DEFAULT_CRAWLER_OPTIONS initial_world)"

definition always_throws :: "nat \<Rightarrow> attempt_outcome" where
  "always_throws n = Throws \<lparr>reachedHooks = True, sentBefore = None, message = ''net'', failure_ctx = example_ctx\<rparr>"

definition example_crawler :: crawler where
  "example_crawler = new_crawler []"


definition admitted_job :: "user_data request" where
  "admitted_job =
     \<lparr>uniqueKey = ''a'', url = ''https://x'', label = BROWSER, skipNavigation = False, retryCount = 0,
      userData = example_user_data\<lparr>timeMeasures :=
        [\<lparr>event = ''request received'', time = 900\<rparr>, \<lparr>event = ''before queue add'', time = 1000\<rparr>]\<rparr>\<rparr>"

section \<open>Properties of admission\<close>

lemmas ex_defs = example_user_data_def example_request_def example_env_def failing_env_def
  DEFAULT_CRAWLER_OPTIONS_def initial_world_def

lemmas op_defs = addRequest_def createAndStartCrawler_def construct_crawler_def start_crawler_def
  register_and_enqueue_def addResponse_def enqueue_def emit_def Date_now_def new_crawler_def
  push_before_queue_add_def queue_addRequest_def queued_def Let_def

lemma emit_fields:
  "responses (emit e w) = responses w" "crawlers (emit e w) = crawlers w"
  "pool (emit e w) = pool w" "sent (emit e w) = sent w"
  "effects (emit e w) = effects w @ [e]" "tick (emit e w) = tick w"
  "queued (emit e w) = queued w"
  by (simp_all add: emit_def queued_def)




lemma wf_initial_world: "wf_world initial_world"
  by (simp add: wf_world_def initial_world_def)

lemma example_admission:
  "addRequest example_env (example_request ''a'') 0 DEFAULT_CRAWLER_OPTIONS initial_world
     = (Inr (), snd (addRequest example_env (example_request ''a'') 0 DEFAULT_CRAWLER_OPTIONS initial_world))"
  by (simp add: op_defs ex_defs)






text \<open>
  C10. When no crawler exists for the serialized options and building one fails (the
  queue cannot be opened or the proxy configuration cannot be created), \<^verbatim>\<open>addRequest\<close>
  ends with that error and the shared state is as before: no response is registered,
  no crawler is added to the map or started, no queue changes and nothing is sent.
\<close>

theorem addRequest_creation_failure_changes_nothing:
  assumes "crawlers w (JSON_stringify env crawlerOptions) = None"
      and "construct_crawler env crawlerOptions = Inl e"
  shows "fst (addRequest env request res crawlerOptions w) = Inl e
       \<and> responses (snd (addRequest env request res crawlerOptions w)) = responses w
       \<and> crawlers (snd (addRequest env request res crawlerOptions w)) = crawlers w
       \<and> pool (snd (addRequest env request res crawlerOptions w)) = pool w
       \<and> sent (snd (addRequest env request res crawlerOptions w)) = sent w"
  using assms by (simp add: addRequest_def createAndStartCrawler_def Let_def emit_fields)

theorem addRequest_creation_failure_changes_nothing_witness:
  "crawlers initial_world (JSON_stringify failing_env DEFAULT_CRAWLER_OPTIONS) = None
   \<and> construct_crawler failing_env DEFAULT_CRAWLER_OPTIONS = Inl (ProxyConfigurationError ''no proxy'')
   \<and> fst (addRequest failing_env (example_request ''a'') 0 DEFAULT_CRAWLER_OPTIONS initial_world)
       = Inl (ProxyConfigurationError ''no proxy'')
   \<and> responses (snd (addRequest failing_env (example_request ''a'') 0 DEFAULT_CRAWLER_OPTIONS initial_world)) ''a''
       = None
   \<and> pool (snd (addRequest failing_env (example_request ''a'') 0 DEFAULT_CRAWLER_OPTIONS initial_world)) = []"
proof -
  have a: "crawlers initial_world (JSON_stringify failing_env DEFAULT_CRAWLER_OPTIONS) = None"
    by (simp add: initial_world_def)
  have b: "construct_crawler failing_env DEFAULT_CRAWLER_OPTIONS = Inl (ProxyConfigurationError ''no proxy'')"
    by (simp add: construct_crawler_def failing_env_def example_env_def)
  have c: "responses initial_world ''a'' = None" "pool initial_world = []"
    by (simp_all add: initial_world_def)
  show ?thesis
    using addRequest_creation_failure_changes_nothing[OF a b, of "example_request ''a''" 0] a b c
    by simp
qed

section \<open>Sharing of crawlers between admissions\<close>












lemma single_call_is_addRequest:
  "run_schedule env [0, 0, 0] ([Called r res co], w) =
     ([Returned (fst (addRequest env r res co w))], snd (addRequest env r res co w))"
  by (auto simp: addRequest_step_def addRequest_def Let_def split: option.splits prod.splits sum.splits)




section \<open>The failure handler\<close>

lemmas job_defs = example_job_def transparent_job_def example_ctx_def admitted_world_def








section \<open>The life of a request: delivery, retries and the ledger\<close>

lemma untouched_refl: "untouched k w w" by (simp add: untouched_def)












lemma key_simps:
  "uniqueKey (fst (runRequestHandler env r w)) = uniqueKey r"
  "uniqueKey (fst (run_hooks env r w)) = uniqueKey r"
  "uniqueKey (errorHandler now r msg) = uniqueKey r"
  "uniqueKey (fst (failedRequestHandler ctx r msg w)) = uniqueKey r"
  "retryCount (fst (runRequestHandler env r w)) = retryCount r"
  "retryCount (fst (run_hooks env r w)) = retryCount r"
  "retryCount (errorHandler now r msg) = retryCount r"
  "retryCount (fst (failedRequestHandler ctx r msg w)) = retryCount r"
  by (simp_all add: runRequestHandler_def run_hooks_def errorHandler_def failedRequestHandler_def
       preNavigationHooks_def Date_now_def Let_def split: prod.splits)


lemma crawl_unfold:
  "attempt_step env c (outcomes (retryCount r)) r w = (st, r1, w1) \<Longrightarrow>
   crawl env c outcomes r w = (if st = Queued then crawl env c outcomes r1 w1 else (st, r1, w1))"
  by (subst crawl.simps) (simp split: job_state.splits)



lemma errors_simps:
  "errors_of (fst (runRequestHandler env r w)) = errors_of r"
  "errors_of (fst (run_hooks env r w)) = errors_of r"
  "errors_of (errorHandler now r msg) = errors_of r @ [\<lparr>attempt = retryCount r + 1, errorMessage = msg\<rparr>]"
  "errors_of (fst (failedRequestHandler ctx r msg w)) = errors_of r @ [\<lparr>attempt = retryCount r + 1, errorMessage = msg\<rparr>]"
  "errors_of (r\<lparr>retryCount := n\<rparr>) = errors_of r"
  by (simp_all add: errors_of_def runRequestHandler_def run_hooks_def errorHandler_def failedRequestHandler_def
       preNavigationHooks_def Date_now_def Let_def split: prod.splits)

lemma ledger_simps:
  "ledger_of (fst (runRequestHandler env r w)) =
     ledger_of r @ [\<lparr>event = ''crawlee internal request handler'', time = clock env (tick w)\<rparr>]"
  "ledger_of (fst (run_hooks env r w)) =
     ledger_of r @ [\<lparr>event = ''pre-navigation hook'', time = clock env (tick w)\<rparr>]"
  "ledger_of (errorHandler now r msg) = ledger_of r @ [\<lparr>event = ''error'', time = now\<rparr>]"
  "ledger_of (fst (failedRequestHandler ctx r msg w)) = ledger_of r"
  "ledger_of (r\<lparr>retryCount := n\<rparr>) = ledger_of r"
  by (simp_all add: ledger_of_def runRequestHandler_def run_hooks_def errorHandler_def failedRequestHandler_def
       preNavigationHooks_def Date_now_def Let_def split: prod.splits)

lemma tick_simps:
  "tick (runTaskFunction env w) = Suc (tick w)"
  "tick (snd (runRequestHandler env r w)) = Suc (tick w)"
  "tick (snd (run_hooks env r w)) = Suc (tick w)"
  "tick (snd (Date_now env w)) = Suc (tick w)"
  "tick (dispatch k p s w) = tick w"
  "tick (snd (failedRequestHandler ctx r msg w)) = tick w"
  by (simp_all add: runTaskFunction_def runRequestHandler_def run_hooks_def Date_now_def dispatch_def emit_def
       failedRequestHandler_def sendErrorResponseById_def pushLogData_def Let_def split: prod.splits option.splits)

lemma attempt_completes:
  assumes "attempt_step env c (Completes payload status) r w = (st, r', w')"
  shows "st = Succeeded \<and> retryCount r' = retryCount r \<and> errors_of r' = errors_of r
     \<and> ledger_of r' = ledger_of r @
          [\<lparr>event = ''crawlee internal request handler'', time = clock env (tick w + 1)\<rparr>,
           \<lparr>event = ''pre-navigation hook'', time = clock env (tick w + 2)\<rparr>]
     \<and> tick w' = tick w + 3"
proof -
  obtain r1 w1 where s1: "runRequestHandler env r (runTaskFunction env w) = (r1, w1)"
    by (cases "runRequestHandler env r (runTaskFunction env w)")
  obtain r2 w2 where s2: "run_hooks env r1 w1 = (r2, w2)" by (cases "run_hooks env r1 w1")
  have f1: "retryCount r1 = retryCount r" "errors_of r1 = errors_of r" "tick w1 = tick w + 2"
    "ledger_of r1 = ledger_of r @ [\<lparr>event = ''crawlee internal request handler'', time = clock env (tick w + 1)\<rparr>]"
    using key_simps(5)[of env r "runTaskFunction env w"] errors_simps(1)[of env r "runTaskFunction env w"]
      tick_simps(2)[of env r "runTaskFunction env w"] ledger_simps(1)[of env r "runTaskFunction env w"] s1
    by (simp_all add: tick_simps)
  have f2: "retryCount r2 = retryCount r1" "errors_of r2 = errors_of r1" "tick w2 = tick w1 + 1"
    "ledger_of r2 = ledger_of r1 @ [\<lparr>event = ''pre-navigation hook'', time = clock env (tick w1)\<rparr>]"
    using key_simps(6)[of env r1 w1] errors_simps(2)[of env r1 w1] tick_simps(3)[of env r1 w1]
      ledger_simps(2)[of env r1 w1] s2
    by simp_all
  have "st = Succeeded \<and> r' = r2 \<and> w' = dispatch (uniqueKey r2) payload status w2"
    using assms s1 s2 by (auto simp: attempt_step_def)
  then show ?thesis using f1 f2 by (simp add: tick_simps)
qed

lemma attempt_throws:
  assumes "attempt_step env c (Throws t) r w = (st, r', w')"
  shows "errors_of r' = errors_of r @ [\<lparr>attempt = retryCount r + 1, errorMessage = message t\<rparr>]
     \<and> (if retryCount r < maxRequestRetries c
         then st = Queued \<and> retryCount r' = retryCount r + 1
            \<and> ledger_of r' = ledger_of r @
                 [\<lparr>event = ''crawlee internal request handler'', time = clock env (tick w + 1)\<rparr>] @
                 hook_measures env w (reachedHooks t) @
                 [\<lparr>event = ''error'', time = clock env (tick w + 2 + length (hook_measures env w (reachedHooks t)))\<rparr>]
            \<and> tick w' = tick w + 3 + length (hook_measures env w (reachedHooks t))
         else st = Failed \<and> retryCount r' = retryCount r
            \<and> ledger_of r' = ledger_of r @
                 [\<lparr>event = ''crawlee internal request handler'', time = clock env (tick w + 1)\<rparr>] @
                 hook_measures env w (reachedHooks t)
            \<and> tick w' = tick w + 2 + length (hook_measures env w (reachedHooks t)))"
proof -
  obtain r1 w1 where s1: "runRequestHandler env r (runTaskFunction env w) = (r1, w1)"
    by (cases "runRequestHandler env r (runTaskFunction env w)")
  obtain r2 w2 where s2: "(if reachedHooks t then run_hooks env r1 w1 else (r1, w1)) = (r2, w2)"
    by (cases "(if reachedHooks t then run_hooks env r1 w1 else (r1, w1))")
  have f1: "retryCount r1 = retryCount r" "errors_of r1 = errors_of r" "tick w1 = tick w + 2"
    "ledger_of r1 = ledger_of r @ [\<lparr>event = ''crawlee internal request handler'', time = clock env (tick w + 1)\<rparr>]"
    using key_simps(5)[of env r "runTaskFunction env w"] errors_simps(1)[of env r "runTaskFunction env w"]
      tick_simps(2)[of env r "runTaskFunction env w"] ledger_simps(1)[of env r "runTaskFunction env w"] s1
    by (simp_all add: tick_simps)
  have f2: "retryCount r2 = retryCount r" "errors_of r2 = errors_of r"
    "tick w2 = tick w + 2 + length (hook_measures env w (reachedHooks t))"
    "ledger_of r2 = ledger_of r1 @ hook_measures env w (reachedHooks t)"
    using key_simps(6)[of env r1 w1] errors_simps(2)[of env r1 w1] tick_simps(3)[of env r1 w1]
      ledger_simps(2)[of env r1 w1] s2 f1
    by (auto simp: hook_measures_def split: if_splits)
  define w3 where "w3 = (case sentBefore t of None \<Rightarrow> w2 | Some (payload, status) \<Rightarrow> dispatch (uniqueKey r2) payload status w2)"
  have f3: "tick w3 = tick w2" by (simp add: w3_def tick_simps split: option.splits)
  show ?thesis
  proof (cases "retryCount r < maxRequestRetries c")
    case True
    have "st = Queued \<and> r' = (errorHandler (clock env (tick w3)) r2 (message t))\<lparr>retryCount := retryCount r2 + 1\<rparr>
          \<and> w' = snd (Date_now env w3)"
      using assms s1 s2 True f2(1)
      by (auto simp: attempt_step_def w3_def Let_def Date_now_def key_simps split: prod.splits option.splits)
    then show ?thesis using True f1 f2 f3
      by (simp add: errors_simps ledger_simps tick_simps key_simps)
  next
    case False
    obtain r3 w4 where s3: "failedRequestHandler (failure_ctx t) r2 (message t) w3 = (r3, w4)"
      by (cases "failedRequestHandler (failure_ctx t) r2 (message t) w3")
    have f4: "retryCount r3 = retryCount r2" "errors_of r3 = errors_of r2 @ [\<lparr>attempt = retryCount r2 + 1, errorMessage = message t\<rparr>]"
      "ledger_of r3 = ledger_of r2" "tick w4 = tick w3"
      using key_simps(8)[of "failure_ctx t" r2 "message t" w3] errors_simps(4)[of "failure_ctx t" r2 "message t" w3]
        ledger_simps(4)[of "failure_ctx t" r2 "message t" w3] tick_simps(6)[of "failure_ctx t" r2 "message t" w3] s3
      by simp_all
    have "st = Failed \<and> r' = r3 \<and> w' = w4"
      using assms s1 s2 False f2(1) s3
      by (auto simp: attempt_step_def w3_def Let_def split: prod.splits option.splits)
    then show ?thesis using False f1 f2 f3 f4 by simp
  qed
qed

lemma attempts_in_simps:
  "attempts_in (xs @ ys) = attempts_in xs + attempts_in ys"
  "attempts_in [] = 0"
  "attempts_in (hook_measures env w b) = 0"
  "attempts_in [\<lparr>event = ''crawlee internal request handler'', time = n\<rparr>] = 1"
  "attempts_in [\<lparr>event = ''pre-navigation hook'', time = n\<rparr>] = 0"
  "attempts_in [\<lparr>event = ''error'', time = n\<rparr>] = 0"
  by (simp_all add: attempts_in_def hook_measures_def)

lemma attempts_in_Cons:
  "attempts_in (m # xs) =
     (if event m = ''crawlee internal request handler'' then Suc (attempts_in xs) else attempts_in xs)"
  by (simp add: attempts_in_def)

lemma crawl_retries:
  "crawl env c outcomes r w = (st, r', w') \<Longrightarrow> retryCount r \<le> maxRequestRetries c \<Longrightarrow>
     retryCount r \<le> retryCount r' \<and> retryCount r' \<le> maxRequestRetries c
     \<and> length (errors_of r') = length (errors_of r) + (retryCount r' - retryCount r) + (if st = Failed then 1 else 0)
     \<and> attempts_in (ledger_of r') = attempts_in (ledger_of r) + (retryCount r' - retryCount r) + 1
     \<and> (st = Failed \<longrightarrow> retryCount r' = maxRequestRetries c)"
proof (induction env c outcomes r w rule: crawl.induct)
  case (1 env c outcomes r w)
  obtain s1 r1 w1 where a: "attempt_step env c (outcomes (retryCount r)) r w = (s1, r1, w1)"
    by (cases "attempt_step env c (outcomes (retryCount r)) r w") auto
  show ?case
  proof (cases "outcomes (retryCount r)")
    case (Completes payload status)
    from attempt_completes[OF a[unfolded Completes]]
    have f: "s1 = Succeeded" "retryCount r1 = retryCount r" "errors_of r1 = errors_of r"
      "attempts_in (ledger_of r1) = attempts_in (ledger_of r) + 1"
      by (simp_all add: attempts_in_simps attempts_in_Cons)
    have "(st, r', w') = (s1, r1, w1)"
      using crawl_unfold[where outcomes=outcomes, OF a] "1.prems"(1) f(1) by simp
    then show ?thesis using f "1.prems"(2) by auto
  next
    case (Throws t)
    note th = attempt_throws[OF a[unfolded Throws]]
    show ?thesis
    proof (cases "retryCount r < maxRequestRetries c")
      case True
      with th have f: "s1 = Queued" "retryCount r1 = retryCount r + 1"
        "length (errors_of r1) = length (errors_of r) + 1"
        "attempts_in (ledger_of r1) = attempts_in (ledger_of r) + 1"
        by (simp_all add: attempts_in_simps attempts_in_Cons)
      have c1: "crawl env c outcomes r1 w1 = (st, r', w')"
        using crawl_unfold[where outcomes=outcomes, OF a] "1.prems"(1) f(1) by simp
      have le: "retryCount r1 \<le> maxRequestRetries c" using True f(2) by simp
      from "1.IH"[OF a[symmetric] f(1) refl c1 le] f show ?thesis by auto
    next
      case False
      with th have f: "s1 = Failed" "retryCount r1 = retryCount r"
        "length (errors_of r1) = length (errors_of r) + 1"
        "attempts_in (ledger_of r1) = attempts_in (ledger_of r) + 1"
        by (simp_all add: attempts_in_simps attempts_in_Cons)
      have "(st, r', w') = (s1, r1, w1)"
        using crawl_unfold[where outcomes=outcomes, OF a] "1.prems"(1) f(1) by simp
      then show ?thesis using f "1.prems"(2) False by auto
    qed
  qed
qed

lemma construct_crawler_retries: "construct_crawler env co = Inr c \<Longrightarrow> maxRequestRetries c = 1"
  by (auto simp: construct_crawler_def new_crawler_def split: option.splits sum.splits)

text \<open>
  C6. For a crawler as \<^verbatim>\<open>createAndStartCrawler\<close> builds it (\<^verbatim>\<open>maxRequestRetries: 1\<close>) and a
  fresh request (retry count 0, empty error log), the run ends with a retry count of at
  most 1 after at most 2 attempts, and if it ends failed the length of the error log is
  the retry count plus 1.
\<close>

theorem retries_are_bounded:
  assumes "construct_crawler env0 crawlerOptions = Inr c"
      and "retryCount request = 0"
      and "errors_of request = []"
      and "crawl env c outcomes request w = (st, r', w')"
  shows "retryCount r' \<le> maxRequestRetries c \<and> maxRequestRetries c = 1
       \<and> attempts_in (ledger_of r') \<le> attempts_in (ledger_of request) + 2
       \<and> (if st = Failed then length (errors_of r') = retryCount r' + 1
           else length (errors_of r') = retryCount r')"
proof -
  have m: "maxRequestRetries c = 1" using construct_crawler_retries[OF assms(1)] .
  have le: "retryCount request \<le> maxRequestRetries c" using assms(2) by simp
  from crawl_retries[OF assms(4) le] m assms(2,3) show ?thesis by auto
qed

lemma ledger_ok_push:
  assumes "mono (clock env)" "ledger_ok env n ms" "n \<le> k" "k \<le> n'"
  shows "ledger_ok env n' (ms @ [\<lparr>event = e, time = clock env k\<rparr>])"
proof -
  have a: "clock env n \<le> clock env k" "clock env k \<le> clock env n'"
    using assms(1,3,4) by (auto dest: monoD)
  show ?thesis using assms(2) a
    by (fastforce simp: ledger_ok_def sorted_append)
qed

lemma ledger_ok_later:
  assumes "mono (clock env)" "ledger_ok env n ms" "n \<le> n'"
  shows "ledger_ok env n' ms"
proof -
  have "clock env n \<le> clock env n'" using assms(1,3) by (auto dest: monoD)
  then show ?thesis using assms(2) by (fastforce simp: ledger_ok_def)
qed

lemma attempt_ledger:
  assumes "attempt_step env c outcome r w = (st, r', w')"
      and "mono (clock env)" and "ledger_ok env (tick w) (ledger_of r)"
  shows "ledger_ok env (tick w') (ledger_of r') \<and> (\<exists>ms. ledger_of r' = ledger_of r @ ms)"
proof (cases outcome)
  case (Completes payload status)
  from attempt_completes[OF assms(1)[unfolded Completes]]
  have l: "ledger_of r' = (ledger_of r @ [\<lparr>event = ''crawlee internal request handler'', time = clock env (tick w + 1)\<rparr>])
             @ [\<lparr>event = ''pre-navigation hook'', time = clock env (tick w + 2)\<rparr>]"
    and t: "tick w' = tick w + 3" by simp_all
  have 1: "ledger_ok env (tick w + 1) (ledger_of r @ [\<lparr>event = ''crawlee internal request handler'', time = clock env (tick w + 1)\<rparr>])"
    by (rule ledger_ok_push[OF assms(2,3)]) simp_all
  have 2: "ledger_ok env (tick w') (ledger_of r')"
    unfolding l t by (rule ledger_ok_push[OF assms(2) 1]) simp_all
  show ?thesis using 2 l by simp
next
  case (Throws t)
  note th = attempt_throws[OF assms(1)[unfolded Throws]]
  let ?h = "hook_measures env w (reachedHooks t)"
  let ?l1 = "ledger_of r @ [\<lparr>event = ''crawlee internal request handler'', time = clock env (tick w + 1)\<rparr>]"
  have 1: "ledger_ok env (tick w + 1) ?l1"
    by (rule ledger_ok_push[OF assms(2,3)]) simp_all
  have 2: "ledger_ok env (tick w + 2 + length ?h) (?l1 @ ?h)"
  proof (cases "reachedHooks t")
    case True
    then have h: "?h = [\<lparr>event = ''pre-navigation hook'', time = clock env (tick w + 2)\<rparr>]"
      by (simp add: hook_measures_def)
    show ?thesis unfolding h by (rule ledger_ok_push[OF assms(2) 1]) simp_all
  next
    case False
    then have h: "?h = []" by (simp add: hook_measures_def)
    show ?thesis unfolding h using ledger_ok_later[OF assms(2) 1, of "tick w + 2"] by simp
  qed
  show ?thesis
  proof (cases "retryCount r < maxRequestRetries c")
    case True
    with th have l: "ledger_of r' = (?l1 @ ?h) @ [\<lparr>event = ''error'', time = clock env (tick w + 2 + length ?h)\<rparr>]"
      and t: "tick w' = tick w + 3 + length ?h" by simp_all
    have "ledger_ok env (tick w') (ledger_of r')"
      unfolding l t by (rule ledger_ok_push[OF assms(2) 2]) simp_all
    then show ?thesis using l by simp
  next
    case False
    with th have l: "ledger_of r' = ?l1 @ ?h" and t: "tick w' = tick w + 2 + length ?h" by simp_all
    show ?thesis using 2 l t by simp
  qed
qed

lemma crawl_ledger:
  "crawl env c outcomes r w = (st, r', w') \<Longrightarrow> mono (clock env) \<Longrightarrow> ledger_ok env (tick w) (ledger_of r) \<Longrightarrow>
     ledger_ok env (tick w') (ledger_of r') \<and> (\<exists>ms. ledger_of r' = ledger_of r @ ms)"
proof (induction env c outcomes r w rule: crawl.induct)
  case (1 env c outcomes r w)
  obtain s1 r1 w1 where a: "attempt_step env c (outcomes (retryCount r)) r w = (s1, r1, w1)"
    by (cases "attempt_step env c (outcomes (retryCount r)) r w") auto
  note al = attempt_ledger[OF a "1.prems"(2,3)]
  show ?case
  proof (cases "s1 = Queued")
    case True
    then have c1: "crawl env c outcomes r1 w1 = (st, r', w')"
      using crawl_unfold[where outcomes=outcomes, OF a] "1.prems"(1) by simp
    from "1.IH"[OF a[symmetric] True refl c1 "1.prems"(2)] al show ?thesis by auto
  next
    case False
    then have "(st, r', w') = (s1, r1, w1)"
      using crawl_unfold[where outcomes=outcomes, OF a] "1.prems"(1) by simp
    then show ?thesis using al by auto
  qed
qed

lemma addRequest_enqueued:
  assumes "addRequest env request res crawlerOptions w = (Inr (), w')"
      and "userData request = Some ud"
      and "wf_world w"
  shows "\<exists>i. crawlers w' (JSON_stringify env crawlerOptions) = Some i
          \<and> requestQueue (pool w' ! i) =
               queue_addRequest (push_before_queue_add (clock env (tick w)) request)
                 (case crawlers w (JSON_stringify env crawlerOptions) of
                    None \<Rightarrow> [] | Some j \<Rightarrow> requestQueue (pool w ! j))
          \<and> tick w' = Suc (tick w)"
proof (cases "crawlers w (JSON_stringify env crawlerOptions)")
  case None
  then show ?thesis using assms(1,2)
    by (auto simp: op_defs nth_append split: option.splits sum.splits prod.splits)
next
  case (Some i)
  then have "i < length (pool w)" using assms(3) by (auto simp: wf_world_def ran_def)
  then show ?thesis using assms(1,2) Some
    by (auto simp: op_defs split: option.splits sum.splits prod.splits)
qed

text \<open>
  C9. With a clock that never runs backwards, take a request whose ledger is in order
  when it arrives. \<^verbatim>\<open>addRequest\<close> hands the queue the request with the ledger extended
  at its end by the \<^verbatim>\<open>before queue add\<close> measure, and any later run of that request in a
  crawler only appends to the ledger; the timestamps of the final ledger do not
  decrease in append order.
\<close>

theorem timing_ledger_append_only_and_sorted:
  assumes "mono (clock env)"
      and "addRequest env request res crawlerOptions w = (Inr (), w1)"
      and "userData request = Some ud"
      and "wf_world w"
      and "ledger_ok env (tick w) (timeMeasures ud)"
      and "as_UserData (push_before_queue_add (clock env (tick w)) request) = Some job"
      and "tick w1 \<le> tick w2"
      and "crawl env c outcomes job w2 = (st, job', w3)"
  shows "(\<exists>i. crawlers w1 (JSON_stringify env crawlerOptions) = Some i
            \<and> requestQueue (pool w1 ! i) =
                 queue_addRequest (push_before_queue_add (clock env (tick w)) request)
                   (case crawlers w (JSON_stringify env crawlerOptions) of
                      None \<Rightarrow> [] | Some j \<Rightarrow> requestQueue (pool w ! j)))
       \<and> ledger_of job = timeMeasures ud @ [\<lparr>event = ''before queue add'', time = clock env (tick w)\<rparr>]
       \<and> (\<exists>ms. ledger_of job' = ledger_of job @ ms)
       \<and> sorted (map time (ledger_of job'))"
proof -
  from addRequest_enqueued[OF assms(2,3,4)]
  obtain i where i: "crawlers w1 (JSON_stringify env crawlerOptions) = Some i"
    "requestQueue (pool w1 ! i) =
               queue_addRequest (push_before_queue_add (clock env (tick w)) request)
                 (case crawlers w (JSON_stringify env crawlerOptions) of
                    None \<Rightarrow> [] | Some j \<Rightarrow> requestQueue (pool w ! j))"
    "tick w1 = Suc (tick w)" by auto
  have l: "ledger_of job = timeMeasures ud @ [\<lparr>event = ''before queue add'', time = clock env (tick w)\<rparr>]"
    using assms(3,6) by (auto simp: as_UserData_def push_before_queue_add_def ledger_of_def)
  have ok1: "ledger_ok env (tick w1) (ledger_of job)"
    unfolding i(3) l using ledger_ok_push[OF assms(1,5), of "tick w" "Suc (tick w)"] by simp
  have ok2: "ledger_ok env (tick w2) (ledger_of job)"
    using ledger_ok_later[OF assms(1) ok1 assms(7)] .
  from crawl_ledger[OF assms(8,1) ok2]
  have "ledger_ok env (tick w3) (ledger_of job')" "\<exists>ms. ledger_of job' = ledger_of job @ ms"
    by simp_all
  then show ?thesis using i(1,2) l by (simp add: ledger_ok_def)
qed

lemmas crawl_defs = attempt_step_def runTaskFunction_def runRequestHandler_def run_hooks_def
  preNavigationHooks_def errorHandler_def failedRequestHandler_def sendErrorResponseById_def
  dispatch_def pushLogData_def statusCode_def responseStatusCode_def or_null_def blank_page_def
  always_throws_def example_crawler_def errors_of_def ledger_of_def








lemma example_crawl_fails:
  "crawl example_env example_crawler always_throws (example_job ''a'') admitted_world
     = (Failed, fst (snd (crawl example_env example_crawler always_throws (example_job ''a'') admitted_world)),
        snd (snd (crawl example_env example_crawler always_throws (example_job ''a'') admitted_world)))"
proof -
  have "fst (crawl example_env example_crawler always_throws (example_job ''a'') admitted_world) = Failed"
    by (simp add: crawl.simps crawl_defs job_defs op_defs ex_defs)
  then show ?thesis by (metis prod.collapse)
qed

lemma example_crawler_constructed: "construct_crawler example_env DEFAULT_CRAWLER_OPTIONS = Inr example_crawler"
  by (simp add: construct_crawler_def example_env_def DEFAULT_CRAWLER_OPTIONS_def example_crawler_def)

theorem retries_are_bounded_witness:
  "construct_crawler example_env DEFAULT_CRAWLER_OPTIONS = Inr example_crawler
   \<and> retryCount (example_job ''a'') = 0
   \<and> errors_of (example_job ''a'') = []
   \<and> crawl example_env example_crawler always_throws (example_job ''a'') admitted_world
       = (Failed, fst (snd (crawl example_env example_crawler always_throws (example_job ''a'') admitted_world)),
          snd (snd (crawl example_env example_crawler always_throws (example_job ''a'') admitted_world)))
   \<and> retryCount (fst (snd (crawl example_env example_crawler always_throws (example_job ''a'') admitted_world))) \<le> 1
   \<and> length (errors_of (fst (snd (crawl example_env example_crawler always_throws (example_job ''a'') admitted_world))))
       = retryCount (fst (snd (crawl example_env example_crawler always_throws (example_job ''a'') admitted_world))) + 1"
proof -
  have f: "retryCount (example_job ''a'') = 0" "errors_of (example_job ''a'') = []"
    by (simp_all add: example_job_def example_user_data_def errors_of_def)
  show ?thesis
    using retries_are_bounded[OF example_crawler_constructed f example_crawl_fails] example_crawler_constructed f example_crawl_fails
    by simp
qed

lemma example_clock_mono: "mono (clock example_env)"
  by (simp add: mono_def example_env_def)

lemma admitted_job_crawl_fails:
  "crawl example_env example_crawler always_throws admitted_job admitted_world
     = (Failed, fst (snd (crawl example_env example_crawler always_throws admitted_job admitted_world)),
        snd (snd (crawl example_env example_crawler always_throws admitted_job admitted_world)))"
proof -
  have "fst (crawl example_env example_crawler always_throws admitted_job admitted_world) = Failed"
    by (simp add: crawl.simps crawl_defs admitted_job_def job_defs op_defs ex_defs)
  then show ?thesis by (metis prod.collapse)
qed

theorem timing_ledger_append_only_and_sorted_witness:
  "mono (clock example_env)
   \<and> addRequest example_env (example_request ''a'') 0 DEFAULT_CRAWLER_OPTIONS initial_world
        = (Inr (), admitted_world)
   \<and> userData (example_request ''a'') = Some example_user_data
   \<and> wf_world initial_world
   \<and> ledger_ok example_env (tick initial_world) (timeMeasures example_user_data)
   \<and> as_UserData (push_before_queue_add (clock example_env (tick initial_world)) (example_request ''a''))
        = Some admitted_job
   \<and> tick admitted_world \<le> tick admitted_world
   \<and> crawl example_env example_crawler always_throws admitted_job admitted_world
       = (Failed, fst (snd (crawl example_env example_crawler always_throws admitted_job admitted_world)),
          snd (snd (crawl example_env example_crawler always_throws admitted_job admitted_world)))
   \<and> sorted (map time (ledger_of (fst (snd (crawl example_env example_crawler always_throws admitted_job admitted_world)))))"
proof -
  have a: "addRequest example_env (example_request ''a'') 0 DEFAULT_CRAWLER_OPTIONS initial_world = (Inr (), admitted_world)"
    using example_admission by (simp add: admitted_world_def)
  have u: "userData (example_request ''a'') = Some example_user_data" by (simp add: example_request_def)
  have l0: "ledger_ok example_env (tick initial_world) (timeMeasures example_user_data)"
    by (simp add: ledger_ok_def ex_defs)
  have j: "as_UserData (push_before_queue_add (clock example_env (tick initial_world)) (example_request ''a''))
        = Some admitted_job"
    by (simp add: as_UserData_def push_before_queue_add_def admitted_job_def ex_defs)
  have t: "tick admitted_world \<le> tick admitted_world" by simp
  show ?thesis
    using timing_ledger_append_only_and_sorted[OF example_clock_mono a u wf_initial_world l0 j t admitted_job_crawl_fails]
      example_clock_mono a u wf_initial_world l0 j admitted_job_crawl_fails
    by simp
qed

end
